theory Spec2Isabelle
  imports Main "HOL-Library.Word"
begin

unbundle bit_operations_syntax

section \<open>SSE registers and the lane operations of the output pipeline\<close>

text \<open>
  \<^verbatim>\<open>output_sse.h\<close> holds the SSE4 specialisations of the output stages. A fragment of four
  int32 values lives in one \<^verbatim>\<open>__m128i\<close> register; a fragment of sixteen in an array of four
  registers (\<^verbatim>\<open>__m128i[4]\<close>, read as \<^verbatim>\<open>input.data.val[i]\<close>).

  A register is modelled as the list of its four 32-bit lanes, lowest lane first. Where an
  intrinsic reads the register as eight 16-bit or sixteen 8-bit lanes, the narrower lanes are
  packed little-endian into the 32-bit ones (\<open>lanes16\<close>, \<open>of_lanes16\<close>, \<open>lanes8\<close>,
  \<open>of_lanes8\<close> below). Lane values are machine words: \<open>+\<close> and \<open>*\<close> wrap around, \<open>sint\<close>
  reads a lane as a signed number.
\<close>

type_synonym int32 = "32 word"
type_synonym m128i = "int32 list"

text \<open>\<^verbatim>\<open>typedef Fragment<__m128i[4], 16, 1, MapOrder::ColMajor> SSE4FragmentInt32x16x1\<close>:
  four registers, \<^verbatim>\<open>val[0]\<close> first.\<close>

type_synonym SSE4FragmentInt32x16x1 = "m128i list"

subsection \<open>Signed lane minimum and maximum\<close>

text \<open>\<^verbatim>\<open>_mm_min_epi32\<close> and \<^verbatim>\<open>_mm_max_epi32\<close> compare the lanes of two registers as signed
  32-bit integers and keep the smaller, respectively the larger, of each pair.\<close>

definition min_epi32 :: "int32 \<Rightarrow> int32 \<Rightarrow> int32" where
  "min_epi32 a b = (if sint a < sint b then a else b)"

definition max_epi32 :: "int32 \<Rightarrow> int32 \<Rightarrow> int32" where
  "max_epi32 a b = (if sint a > sint b then a else b)"

definition mm_min_epi32 :: "m128i \<Rightarrow> m128i \<Rightarrow> m128i" where
  "mm_min_epi32 a b = map2 min_epi32 a b"

definition mm_max_epi32 :: "m128i \<Rightarrow> m128i \<Rightarrow> m128i" where
  "mm_max_epi32 a b = map2 max_epi32 a b"

subsection \<open>Lane arithmetic of \<^verbatim>\<open>fixedpoint.h\<close>\<close>

text \<open>
  Modelled from the spec: \<^verbatim>\<open>fixedpoint.h\<close>, which declares \<^verbatim>\<open>Dup\<close>, \<^verbatim>\<open>Add\<close>, \<^verbatim>\<open>Mul\<close>
  and \<^verbatim>\<open>ShiftRight\<close> on \<^verbatim>\<open>__m128i\<close>, is not among the sources. The spec calls them the
  broadcast of a scalar and the lane-wise add, multiply and arithmetic shift right of int32
  lanes; the add and the multiply keep the low 32 bits of each result. Where the source hands
  a scalar int32 to \<^verbatim>\<open>Add\<close> or \<^verbatim>\<open>Mul\<close>, the scalar is broadcast with \<open>Dup\<close>.
\<close>

definition Dup :: "int32 \<Rightarrow> m128i" where
  "Dup x = [x, x, x, x]"

definition Add :: "m128i \<Rightarrow> m128i \<Rightarrow> m128i" where
  "Add a b = map2 (+) a b"

definition Mul :: "m128i \<Rightarrow> m128i \<Rightarrow> m128i" where
  "Mul a b = map2 (*) a b"

text \<open>
  Modelled from the spec: \<^verbatim>\<open>ShiftRight\<close> is the arithmetic shift right of each lane by the
  given count, which says what it is for the counts 0 to 31. What it does with a count
  outside 0..31, a negative one included, is given neither by the source nor by the spec:
  the result is \<open>None\<close> there.
\<close>

definition ShiftRight :: "m128i \<Rightarrow> int \<Rightarrow> m128i option" where
  "ShiftRight a offset =
     (if 0 \<le> offset \<and> offset \<le> 31 then Some (map (signed_drop_bit (nat offset)) a)
      else None)"

text \<open>
  \<^verbatim>\<open>(result_shift < 1) ? 0 : (1 << (result_shift - 1))\<close> on \<^verbatim>\<open>std::int32_t\<close>: 0 for a shift
  below 1, the single bit at position \<open>result_shift - 1\<close> for the shifts 1 to 32. From 33 on
  the count of the left shift reaches the width of \<^verbatim>\<open>int\<close>, where C++ leaves the value
  undefined: \<open>None\<close>.
\<close>

definition kRoundingTerm :: "int32 \<Rightarrow> int32 option" where
  "kRoundingTerm result_shift =
     (if sint result_shift < 1 then Some 0
      else if sint result_shift \<le> 32 then Some (push_bit (nat (sint result_shift - 1)) 1)
      else None)"

section \<open>OutputStageQuantizeDownInt32ToUint8Scale\<close>

text \<open>Modelled from the spec: the stage structs are declared outside \<^verbatim>\<open>output_sse.h\<close>. The
  uniform rescale carries an integer offset, multiplier and shift, which \<^verbatim>\<open>Eval\<close> reads into
  \<^verbatim>\<open>std::int32_t\<close> variables.\<close>

record OutputStageQuantizeDownInt32ToUint8Scale =
  result_offset :: int32
  result_mult_int :: int32
  result_shift :: int32

text \<open>
  \<^verbatim>\<open>
  OutputType Eval(InputType input, int, int) const {
    const std::int32_t result_shift = output_stage.result_shift;
    const std::int32_t result_mult_int = output_stage.result_mult_int;
    const std::int32_t result_offset = output_stage.result_offset;
    const std::int32_t kRoundingTerm =
        (result_shift < 1) ? 0 : (1 << (result_shift - 1));
    const __m128i a = Add(Mul(Add(input, Dup(result_offset)), result_mult_int), kRoundingTerm);
    return ShiftRight(a, result_shift);
  }
  \<close>
\<close>

definition Eval_Scale_Int32x4x1 ::
  "OutputStageQuantizeDownInt32ToUint8Scale \<Rightarrow> m128i \<Rightarrow> int \<Rightarrow> int \<Rightarrow> m128i option" where
  "Eval_Scale_Int32x4x1 output_stage input row col =
     (let shift = result_shift output_stage;
          mult = result_mult_int output_stage;
          offset = result_offset output_stage
      in case kRoundingTerm shift of
           None \<Rightarrow> None
         | Some rounding \<Rightarrow>
             ShiftRight (Add (Mul (Add input (Dup offset)) (Dup mult)) (Dup rounding))
               (sint shift))"

section \<open>OutputStageQuantizeDownInt32ToUint8ScaleByFixedPoint\<close>

text \<open>Modelled from the spec: the struct of the fixed-point rescale, declared outside
  \<^verbatim>\<open>output_sse.h\<close>, carries the fixed-point multiplier, the shift and the offset added after
  the shift. Its field \<^verbatim>\<open>result_shift\<close> is \<open>fp_result_shift\<close> here.\<close>

record OutputStageQuantizeDownInt32ToUint8ScaleByFixedPoint =
  result_fixedpoint_multiplier :: int32
  fp_result_shift :: int32
  result_offset_after_shift :: int32

text \<open>
  \<^verbatim>\<open>
  OutputStageEvalImpl(const OutputStage& s)
      : output_stage(s),
        preshift_offset((s.result_shift < 1) ? 0
                                             : (1 << (s.result_shift - 1))) {}

  OutputType Eval(InputType input, int, int) const {
    const __m128i mulhigh_val = SaturatingRoundingDoublingHighMul(
        input.data, output_stage.result_fixedpoint_multiplier);
    const std::int32_t result_shift = output_stage.result_shift;
    const std::int32_t kRoundingTerm =
      (result_shift < 1) ? 0 : (1 << (result_shift - 1));
    const __m128i shifted_val = ShifRight(Add(mulhigh_val, Dup(kRoundingTerm)), result_shift);
    return Add(shifted_val, Dup(output_stage.result_offset_after_shift));
  }

  const OutputStage& output_stage;
  \<close>
  As written the specialisation does not build: \<^verbatim>\<open>ShifRight\<close> is declared nowhere, and the
  constructor initialises a member \<^verbatim>\<open>preshift_offset\<close> that the struct does not declare. The
  definition below is the body of \<^verbatim>\<open>Eval\<close> with \<^verbatim>\<open>ShiftRight\<close> read for \<^verbatim>\<open>ShifRight\<close>.
\<close>

text \<open>Modelled from the spec: \<^verbatim>\<open>SaturatingRoundingDoublingHighMul\<close> belongs to the fixed-point
  library, which is not among the sources. It multiplies each lane by the multiplier; the
  scalar multiply of one lane is the parameter \<open>srdhm\<close>.\<close>

definition SaturatingRoundingDoublingHighMul ::
  "(int32 \<Rightarrow> int32 \<Rightarrow> int32) \<Rightarrow> m128i \<Rightarrow> int32 \<Rightarrow> m128i" where
  "SaturatingRoundingDoublingHighMul srdhm a b = map (\<lambda>x. srdhm x b) a"

definition Eval_ScaleByFixedPoint_Int32x4x1 ::
  "(int32 \<Rightarrow> int32 \<Rightarrow> int32) \<Rightarrow> OutputStageQuantizeDownInt32ToUint8ScaleByFixedPoint
     \<Rightarrow> m128i \<Rightarrow> int \<Rightarrow> int \<Rightarrow> m128i option" where
  "Eval_ScaleByFixedPoint_Int32x4x1 srdhm output_stage input row col =
     (let mulhigh_val = SaturatingRoundingDoublingHighMul srdhm input
                          (result_fixedpoint_multiplier output_stage);
          shift = fp_result_shift output_stage
      in case kRoundingTerm shift of
           None \<Rightarrow> None
         | Some rounding \<Rightarrow>
             (case ShiftRight (Add mulhigh_val (Dup rounding)) (sint shift) of
                None \<Rightarrow> None
              | Some shifted_val \<Rightarrow>
                  Some (Add shifted_val (Dup (result_offset_after_shift output_stage)))))"

section \<open>Per-channel vectors\<close>

text \<open>
  Modelled from the spec: the vector type of the per-channel parameters and of the bias is
  declared outside \<^verbatim>\<open>output_sse.h\<close>. It is an indexable holder with a shape tag, row or
  column; \<^verbatim>\<open>v(index)\<close> is the element at \<open>index\<close> and \<^verbatim>\<open>v.data(index)\<close> the address of that
  element, for a fetch of a contiguous slice. The model is the list of the elements; a read
  outside it is undefined in C++ and \<open>None\<close> here.
\<close>

datatype VectorShape = Row | Col

definition vector_at :: "int32 list \<Rightarrow> int \<Rightarrow> int32 option" where
  "vector_at v index =
     (if 0 \<le> index \<and> index < int (length v) then Some (v ! nat index) else None)"

text \<open>\<^verbatim>\<open>_mm_lddqu_si128\<close> loads 16 bytes, four consecutive int32 elements, from an address
  that need not be aligned; here the address of the element at \<open>index\<close>.\<close>

definition mm_lddqu_si128 :: "int32 list \<Rightarrow> int \<Rightarrow> m128i option" where
  "mm_lddqu_si128 v index =
     (if 0 \<le> index \<and> index + 4 \<le> int (length v) then Some (take 4 (drop (nat index) v))
      else None)"

text \<open>\<^verbatim>\<open>_mm_cvtsi128_si32\<close> returns the low 32 bits of a register.\<close>

definition mm_cvtsi128_si32 :: "m128i \<Rightarrow> int32" where
  "mm_cvtsi128_si32 a = a ! 0"

section \<open>OutputStageQuantizeDownInt32ToUint8ScalePC\<close>

text \<open>Modelled from the spec: the struct of the per-channel rescale, declared outside
  \<^verbatim>\<open>output_sse.h\<close>, carries a vector of offsets, a vector of multipliers and one shift. Its
  fields \<^verbatim>\<open>result_offset\<close>, \<^verbatim>\<open>result_mult_int\<close> and \<^verbatim>\<open>result_shift\<close> carry the prefix
  \<open>pc_\<close> here. One record serves both shapes; the shape selects the evaluator.\<close>

record OutputStageQuantizeDownInt32ToUint8ScalePC =
  pc_result_offset :: "int32 list"
  pc_result_mult_int :: "int32 list"
  pc_result_shift :: int32

text \<open>
  The specialisation for \<^verbatim>\<open>VectorShape::Col\<close>, whose vectors have one entry per row:
  \<^verbatim>\<open>
  OutputType Eval(InputType input, int row, int col) const {
    const std::int32_t result_shift = output_stage.result_shift;
    const std::int32_t result_mult_int =
      _mm_lddqu_si128((__m128i*)(output_stage.result_mult_int(row)));
    const std::int32_t result_offset =
      _mm_lddqu_si128((__m128i*)(output_stage.result_offset(row)));
    const std::int32_t kRoundingTerm =
        (result_shift < 1) ? 0 : (1 << (result_shift - 1));
    const __m128i a = Add(Mul(Add(input, Dup(result_offset)), result_mult_int), kRoundingTerm);
    return ShiftRight(a, result_shift);
  }
  \<close>
  The specialisation for \<^verbatim>\<open>VectorShape::Row\<close> has the same body with \<^verbatim>\<open>col\<close> in place of
  \<^verbatim>\<open>row\<close>.

  Neither builds: each initialiser hands the register that \<^verbatim>\<open>_mm_lddqu_si128\<close> returns to a
  \<^verbatim>\<open>std::int32_t\<close>, and the operand of the load is the vector's element cast to a pointer.
  The source does not say what such a variable holds, nor what \<^verbatim>\<open>Dup\<close> and \<^verbatim>\<open>Mul\<close> then make
  of it. The model leaves exactly that open, as three parameters that both specialisations
  share, and follows the source in everything else:
  \<^item> \<open>load v index\<close>: what the initialiser written with the vector \<open>v\<close> and the index
    \<open>index\<close> leaves in the variable (\<open>None\<close>: nothing, the read is undefined);
  \<^item> \<open>dup x\<close>: the register that \<^verbatim>\<open>Dup(result_offset)\<close> is when the variable holds \<open>x\<close>;
  \<^item> \<open>operand x\<close>: the register that \<^verbatim>\<open>Mul\<close> takes as its second operand when the variable
    \<^verbatim>\<open>result_mult_int\<close> holds \<open>x\<close>.
\<close>

definition Eval_ScalePC_Col_Int32x4x1 ::
  "(int32 list \<Rightarrow> int \<Rightarrow> 'v option) \<Rightarrow> ('v \<Rightarrow> m128i) \<Rightarrow> ('v \<Rightarrow> m128i)
     \<Rightarrow> OutputStageQuantizeDownInt32ToUint8ScalePC \<Rightarrow> m128i \<Rightarrow> int \<Rightarrow> int \<Rightarrow> m128i option" where
  "Eval_ScalePC_Col_Int32x4x1 load dup operand output_stage input row col =
     (let shift = pc_result_shift output_stage in
      case load (pc_result_mult_int output_stage) row of
        None \<Rightarrow> None
      | Some mult \<Rightarrow>
        (case load (pc_result_offset output_stage) row of
           None \<Rightarrow> None
         | Some offset \<Rightarrow>
           (case kRoundingTerm shift of
              None \<Rightarrow> None
            | Some rounding \<Rightarrow>
                ShiftRight (Add (Mul (Add input (dup offset)) (operand mult)) (Dup rounding))
                  (sint shift))))"

definition Eval_ScalePC_Row_Int32x4x1 ::
  "(int32 list \<Rightarrow> int \<Rightarrow> 'v option) \<Rightarrow> ('v \<Rightarrow> m128i) \<Rightarrow> ('v \<Rightarrow> m128i)
     \<Rightarrow> OutputStageQuantizeDownInt32ToUint8ScalePC \<Rightarrow> m128i \<Rightarrow> int \<Rightarrow> int \<Rightarrow> m128i option" where
  "Eval_ScalePC_Row_Int32x4x1 load dup operand output_stage input row col =
     (let shift = pc_result_shift output_stage in
      case load (pc_result_mult_int output_stage) col of
        None \<Rightarrow> None
      | Some mult \<Rightarrow>
        (case load (pc_result_offset output_stage) col of
           None \<Rightarrow> None
         | Some offset \<Rightarrow>
           (case kRoundingTerm shift of
              None \<Rightarrow> None
            | Some rounding \<Rightarrow>
                ShiftRight (Add (Mul (Add input (dup offset)) (operand mult)) (Dup rounding))
                  (sint shift))))"

section \<open>OutputStageBiasAddition\<close>

text \<open>Modelled from the spec: the struct of the bias addition, declared outside
  \<^verbatim>\<open>output_sse.h\<close>, carries the bias vector. The stage is a template over the vector's type;
  \<open>kShape\<close> is that type's shape tag \<^verbatim>\<open>VectorType::kShape\<close>.\<close>

record OutputStageBiasAddition =
  kShape :: VectorShape
  bias_vector :: "int32 list"

text \<open>
  \<^verbatim>\<open>
  OutputType Eval(InputType input, int row, int col) const {
    __m128i bias;
    if (VectorType::kShape == VectorShape::Row) {
      bias = Dup(output_stage.bias_vector(col));
    } else {
      bias = _mm_lddqu_si128(output_stage.bias_vector.data(row));
    }
    return Add(input, bias);
  }
  \<close>
\<close>

definition Eval_BiasAddition_Int32x4x1 ::
  "OutputStageBiasAddition \<Rightarrow> m128i \<Rightarrow> int \<Rightarrow> int \<Rightarrow> m128i option" where
  "Eval_BiasAddition_Int32x4x1 output_stage input row col =
     (case (if kShape output_stage = Row
            then map_option Dup (vector_at (bias_vector output_stage) col)
            else mm_lddqu_si128 (bias_vector output_stage) row) of
        None \<Rightarrow> None
      | Some bias \<Rightarrow> Some (Add input bias))"

section \<open>OutputStageSaturatingCastToUint8\<close>

subsection \<open>Narrow lanes and the saturating packs\<close>

text \<open>Two 16-bit lanes share a 32-bit lane, the lower one in its low half; four bytes
  share a 32-bit lane, little-endian.\<close>

definition join16 :: "16 word \<Rightarrow> 16 word \<Rightarrow> int32" where
  "join16 lo hi = ucast lo OR push_bit 16 (ucast hi)"

definition split16 :: "int32 \<Rightarrow> 16 word list" where
  "split16 w = [ucast w, ucast (drop_bit 16 w)]"

definition join8 :: "8 word \<Rightarrow> 8 word \<Rightarrow> 8 word \<Rightarrow> 8 word \<Rightarrow> int32" where
  "join8 b0 b1 b2 b3 =
     ucast b0 OR push_bit 8 (ucast b1) OR push_bit 16 (ucast b2) OR push_bit 24 (ucast b3)"

definition bytes_u32 :: "int32 \<Rightarrow> 8 word list" where
  "bytes_u32 w = [ucast w, ucast (drop_bit 8 w), ucast (drop_bit 16 w), ucast (drop_bit 24 w)]"

text \<open>The eight 16-bit lanes of a register, lowest first, and the register made of eight
  16-bit lanes; the sixteen bytes of a register, lowest first, and the register made of
  sixteen bytes.\<close>

definition lanes16 :: "m128i \<Rightarrow> 16 word list" where
  "lanes16 a = concat (map split16 a)"

fun of_lanes16 :: "16 word list \<Rightarrow> m128i" where
  "of_lanes16 (lo # hi # rest) = join16 lo hi # of_lanes16 rest"
| "of_lanes16 _ = []"

definition lanes8 :: "m128i \<Rightarrow> 8 word list" where
  "lanes8 a = concat (map bytes_u32 a)"

fun of_lanes8 :: "8 word list \<Rightarrow> m128i" where
  "of_lanes8 (b0 # b1 # b2 # b3 # rest) = join8 b0 b1 b2 b3 # of_lanes8 rest"
| "of_lanes8 _ = []"

text \<open>\<^verbatim>\<open>_mm_packus_epi32\<close> (PACKUSDW) reads the 32-bit lanes of \<open>a\<close>, then of \<open>b\<close>, as signed
  and saturates each to an unsigned 16-bit lane. \<^verbatim>\<open>_mm_packus_epi16\<close> (PACKUSWB) reads the
  16-bit lanes of \<open>a\<close>, then of \<open>b\<close>, as signed and saturates each to an unsigned byte.\<close>

definition packus_epi32 :: "int32 \<Rightarrow> 16 word" where
  "packus_epi32 x = (if sint x < 0 then 0 else if 65535 < sint x then 65535 else ucast x)"

definition packus_epi16 :: "16 word \<Rightarrow> 8 word" where
  "packus_epi16 x = (if sint x < 0 then 0 else if 255 < sint x then 255 else ucast x)"

definition mm_packus_epi32 :: "m128i \<Rightarrow> m128i \<Rightarrow> m128i" where
  "mm_packus_epi32 a b = of_lanes16 (map packus_epi32 a @ map packus_epi32 b)"

definition mm_packus_epi16 :: "m128i \<Rightarrow> m128i \<Rightarrow> m128i" where
  "mm_packus_epi16 a b =
     of_lanes8 (map packus_epi16 (lanes16 a) @ map packus_epi16 (lanes16 b))"

subsection \<open>The two evaluators\<close>

text \<open>
  Four lanes; the result is a \<^verbatim>\<open>uint32_t\<close> holding the four bytes
  (\<^verbatim>\<open>SSE4FragmentUint8x4x1\<close>):
  \<^verbatim>\<open>
  OutputType Eval(InputType input, int, int) const {
    const __m128i zero = Dup(0);
    __m128i res_16 = _mm_packus_epi32(input, zero);
    __m128i res_8  = _mm_packus_epi16(res_16, zero);
    return _mm_cvtsi128_si32(res_8);
  }
  \<close>
\<close>

definition Eval_SaturatingCastToUint8_Int32x4x1 :: "m128i \<Rightarrow> int \<Rightarrow> int \<Rightarrow> int32" where
  "Eval_SaturatingCastToUint8_Int32x4x1 input row col =
     (let zero = Dup 0;
          res_16 = mm_packus_epi32 input zero;
          res_8 = mm_packus_epi16 res_16 zero
      in mm_cvtsi128_si32 res_8)"

text \<open>
  Sixteen lanes:
  \<^verbatim>\<open>
  OutputType Eval(InputType input, int, int) const {
    __m128i q16[2];
    for (int i = 0; i < 2; i++) {
      q16[i] = _mm_packus_epi32(input.data.val[2 * i],
                                input.data.val[2 * i + 1]);
    }
    return _mm_packus_epi16(q16[0], q16[1]);
  }
  \<close>
  The result type \<^verbatim>\<open>SSE4FragmentUint8x16x1\<close> is declared over \<^verbatim>\<open>uint64_t\<close>; the model's result
  is the whole register that \<^verbatim>\<open>_mm_packus_epi16\<close> returns, which is also what
  \<^verbatim>\<open>StoreFinalOutput\<close> hands to \<^verbatim>\<open>_mm_storeu_si128\<close> for this fragment type.
\<close>

definition Eval_SaturatingCastToUint8_Int32x16x1 ::
  "SSE4FragmentInt32x16x1 \<Rightarrow> int \<Rightarrow> int \<Rightarrow> m128i" where
  "Eval_SaturatingCastToUint8_Int32x16x1 input row col =
     (let q16 = map (\<lambda>i. mm_packus_epi32 (input ! (2 * i)) (input ! (2 * i + 1))) [0..<2]
      in mm_packus_epi16 (q16 ! 0) (q16 ! 1))"

section \<open>OutputStageClamp\<close>

text \<open>Modelled from the spec: the struct of the clamp, declared outside \<^verbatim>\<open>output_sse.h\<close>,
  carries the integer bounds \<^verbatim>\<open>min\<close> and \<^verbatim>\<open>max\<close>, here \<open>clamp_min\<close> and \<open>clamp_max\<close>.\<close>

record OutputStageClamp =
  clamp_min :: int32
  clamp_max :: int32

text \<open>
  \<^verbatim>\<open>
  OutputType Eval(InputType input, int, int) const {
    const __m128i min = Dup(output_stage.min);
    const __m128i max = Dup(output_stage.max);
    return _mm_min_epi32(_mm_max_epi32(input, min), max);
  }
  \<close>
\<close>

definition Eval_Clamp_Int32x4x1 :: "OutputStageClamp \<Rightarrow> m128i \<Rightarrow> int \<Rightarrow> int \<Rightarrow> m128i" where
  "Eval_Clamp_Int32x4x1 output_stage input row col =
     (let min = Dup (clamp_min output_stage);
          max = Dup (clamp_max output_stage)
      in mm_min_epi32 (mm_max_epi32 input min) max)"

section \<open>Sixteen-lane evaluation by decomposition\<close>

text \<open>
  The partial specialisation for any stage with a four-lane implementation:
  \<^verbatim>\<open>
  OutputType Eval(InputType input, int row, int col) const {
    OutputType output;
    for (int i = 0; i < 4; i++) {
      output.data.val[i] =
          impl_int32x4.Eval(input.data.val[i], row + 4 * i, col);
    }
    return output;
  }
  \<close>
  The four-lane implementation \<^verbatim>\<open>impl_int32x4.Eval\<close> is the parameter \<open>impl\<close>; it returns
  \<open>None\<close> where the stage reads outside a vector. \<open>output\<close> starts uninitialised, here as
  four zero registers, and every one of them is overwritten.
\<close>

function Eval_Int32x16x1_loop ::
  "(m128i \<Rightarrow> int \<Rightarrow> int \<Rightarrow> m128i option) \<Rightarrow> SSE4FragmentInt32x16x1 \<Rightarrow> int \<Rightarrow> int
     \<Rightarrow> nat \<Rightarrow> SSE4FragmentInt32x16x1 \<Rightarrow> SSE4FragmentInt32x16x1 option" where
  "Eval_Int32x16x1_loop impl input row col i output =
     (if i < 4 then
        (case impl (input ! i) (row + 4 * int i) col of
           None \<Rightarrow> None
         | Some r \<Rightarrow> Eval_Int32x16x1_loop impl input row col (i + 1) (output[i := r]))
      else Some output)"
  by pat_completeness auto
termination
  by (relation "measure (\<lambda>(impl, input, row, col, i, output). 4 - i)") auto

definition Eval_Int32x16x1 ::
  "(m128i \<Rightarrow> int \<Rightarrow> int \<Rightarrow> m128i option) \<Rightarrow> SSE4FragmentInt32x16x1 \<Rightarrow> int \<Rightarrow> int
     \<Rightarrow> SSE4FragmentInt32x16x1 option" where
  "Eval_Int32x16x1 impl input row col =
     Eval_Int32x16x1_loop impl input row col 0 [Dup 0, Dup 0, Dup 0, Dup 0]"

section \<open>StoreFinalOutput for int32 fragments\<close>

text \<open>
  The destination is a template parameter; \<^verbatim>\<open>dst->data(row, col)\<close> is the address of its
  element at \<open>(row, col)\<close>. The model takes the destination's buffer as a function from
  element addresses (counted in int32 elements) to values, and its addressing function
  \<open>data\<close> as a parameter. \<^verbatim>\<open>_mm_storeu_si128\<close> writes the four lanes of a register to four
  consecutive elements from the given address on.
\<close>

type_synonym memory = "int \<Rightarrow> int32"

definition mm_storeu_si128 :: "memory \<Rightarrow> int \<Rightarrow> m128i \<Rightarrow> memory" where
  "mm_storeu_si128 mem p a = mem(p := a ! 0, p + 1 := a ! 1, p + 2 := a ! 2, p + 3 := a ! 3)"

text \<open>
  \<^verbatim>\<open>
  template <typename DstType>
  inline void StoreFinalOutput(SSE4FragmentInt32x4x1 value, DstType* dst, int row,
                               int col) {
    _mm_storeu_si128((__m128i*) (dst->data(row, col)), value);
  }
  \<close>
\<close>

definition StoreFinalOutput_Int32x4x1 ::
  "m128i \<Rightarrow> (int \<Rightarrow> int \<Rightarrow> int) \<Rightarrow> memory \<Rightarrow> int \<Rightarrow> int \<Rightarrow> memory" where
  "StoreFinalOutput_Int32x4x1 v data mem row col = mm_storeu_si128 mem (data row col) v"

text \<open>
  \<^verbatim>\<open>
  template <typename DstType>
  inline void StoreFinalOutput(SSE4FragmentInt32x16x1 value, DstType* dst,
                               int row, int col) {
    for (int i = 0; i < 4; i++) {
      _mm_storeu_si128((__m128i*) (dst->data(row, col)), value);
    }
  }
  \<close>
  Neither the address nor the stored operand depends on \<open>i\<close>. The operand is the fragment
  itself where one register is expected; the model stores the register the fragment begins
  with, \<^verbatim>\<open>val[0]\<close>.
\<close>

function StoreFinalOutput_Int32x16x1_loop ::
  "SSE4FragmentInt32x16x1 \<Rightarrow> (int \<Rightarrow> int \<Rightarrow> int) \<Rightarrow> int \<Rightarrow> int \<Rightarrow> nat \<Rightarrow> memory \<Rightarrow> memory"
  where
  "StoreFinalOutput_Int32x16x1_loop v data row col i mem =
     (if i < 4 then
        StoreFinalOutput_Int32x16x1_loop v data row col (i + 1)
          (mm_storeu_si128 mem (data row col) (v ! 0))
      else mem)"
  by pat_completeness auto
termination
  by (relation "measure (\<lambda>(v, data, row, col, i, mem). 4 - i)") auto

definition StoreFinalOutput_Int32x16x1 ::
  "SSE4FragmentInt32x16x1 \<Rightarrow> (int \<Rightarrow> int \<Rightarrow> int) \<Rightarrow> memory \<Rightarrow> int \<Rightarrow> int \<Rightarrow> memory" where
  "StoreFinalOutput_Int32x16x1 v data mem row col =
     StoreFinalOutput_Int32x16x1_loop v data row col 0 mem"

section \<open>The element-by-element reference\<close>

text \<open>
  The spec's reference for a fragment of one column starting at \<open>(row, col)\<close>: element \<open>k\<close> of
  the fragment sits at row \<open>row + k\<close> of column \<open>col\<close>, and a scalar stage \<open>f\<close> is applied to
  each element at the element's own coordinates.
\<close>

definition scalar_reference ::
  "(int32 \<Rightarrow> int \<Rightarrow> int \<Rightarrow> int32) \<Rightarrow> int32 list \<Rightarrow> int \<Rightarrow> int \<Rightarrow> int32 list" where
  "scalar_reference f v row col = map (\<lambda>(k, x). f x (row + int k) col) (enumerate 0 v)"

section \<open>Properties\<close>

subsection \<open>Registers\<close>

lemma length_Dup: "length (Dup x) = 4"
  by (simp add: Dup_def)

lemma nth_Dup: "i < 4 \<Longrightarrow> Dup x ! i = x"
proof -
  assume "i < 4"
  then consider "i = 0" | "i = 1" | "i = 2" | "i = 3" by linarith
  then show ?thesis by cases (simp_all add: Dup_def)
qed

lemma length_4_iff: "length xs = 4 \<longleftrightarrow> (\<exists>a b c d. xs = [a, b, c, d])"
  by (simp add: numeral_eq_Suc length_Suc_conv) blast

subsection \<open>Lane arithmetic\<close>

lemma Add_Dup_map: "length a = 4 \<Longrightarrow> Add a (Dup x) = map (\<lambda>y. y + x) a"
  by (auto simp: length_4_iff Add_def Dup_def)

lemma Mul_Dup_map: "length a = 4 \<Longrightarrow> Mul a (Dup x) = map (\<lambda>y. y * x) a"
  by (auto simp: length_4_iff Mul_def Dup_def)

lemma ShiftRight_in_range:
  "0 \<le> k \<Longrightarrow> k \<le> 31 \<Longrightarrow> ShiftRight a k = Some (map (signed_drop_bit (nat k)) a)"
  by (simp add: ShiftRight_def)

lemma ShiftRight_zero: "ShiftRight a 0 = Some a"
  by (simp add: ShiftRight_def map_idI)

lemma ShiftRight_negative: "k < 0 \<Longrightarrow> ShiftRight a k = None"
  by (simp add: ShiftRight_def)

lemma kRoundingTerm_below_1: "sint k < 1 \<Longrightarrow> kRoundingTerm k = Some 0"
  by (simp add: kRoundingTerm_def)

lemma kRoundingTerm_1_to_32:
  "0 < sint k \<Longrightarrow> sint k \<le> 32 \<Longrightarrow> kRoundingTerm k = Some (2 ^ (nat (sint k) - 1))"
  by (simp add: kRoundingTerm_def push_bit_eq_mult nat_diff_distrib)

subsection \<open>Uniform rescale\<close>

lemma Eval_Scale_in_range:
  assumes "length input = 4" and "0 \<le> sint (result_shift s)" and "sint (result_shift s) \<le> 31"
    and "kRoundingTerm (result_shift s) = Some rounding"
  shows "Eval_Scale_Int32x4x1 s input row col =
     Some (map (\<lambda>x. signed_drop_bit (nat (sint (result_shift s)))
                  ((x + result_offset s) * result_mult_int s + rounding)) input)"
  using assms
  by (simp add: Eval_Scale_Int32x4x1_def Let_def ShiftRight_in_range Add_Dup_map Mul_Dup_map
      comp_def)




subsection \<open>Fixed-point rescale\<close>

text \<open>Read with \<^verbatim>\<open>ShiftRight\<close>, the body of the fixed-point rescale gives every lane, for a
  shift from 0 to 31, as: the high multiply of the input lane with the fixed-point
  multiplier, plus the rounding term (0 when the shift is below 1, otherwise
  \<open>2^(shift-1)\<close>), shifted right arithmetically by the shift, plus
  \<open>result_offset_after_shift\<close>.\<close>

lemma Eval_ScaleByFixedPoint_in_range:
  assumes "length input = 4"
    and "0 \<le> sint (fp_result_shift s)" and "sint (fp_result_shift s) \<le> 31"
  shows "Eval_ScaleByFixedPoint_Int32x4x1 srdhm s input row col =
     Some (map (\<lambda>x. signed_drop_bit (nat (sint (fp_result_shift s)))
                  (srdhm x (result_fixedpoint_multiplier s)
                     + (if sint (fp_result_shift s) < 1 then 0
                        else 2 ^ (nat (sint (fp_result_shift s)) - 1)))
                  + result_offset_after_shift s) input)"
proof -
  have len: "length (SaturatingRoundingDoublingHighMul srdhm input m) = 4" for m
    using assms(1) by (simp add: SaturatingRoundingDoublingHighMul_def)
  have rt: "kRoundingTerm (fp_result_shift s)
      = Some (if sint (fp_result_shift s) < 1 then 0
              else 2 ^ (nat (sint (fp_result_shift s)) - 1))"
    using assms(3) by (simp add: kRoundingTerm_below_1 kRoundingTerm_1_to_32)
  show ?thesis
    using assms
    by (simp add: Eval_ScaleByFixedPoint_Int32x4x1_def Let_def rt ShiftRight_in_range
        Add_Dup_map len SaturatingRoundingDoublingHighMul_def comp_def)
qed

subsection \<open>Saturating cast to uint8\<close>

lemma split16_join16: "split16 (join16 lo hi) = [lo, hi]"
  unfolding split16_def join16_def list.inject
  by (intro conjI refl bit_word_eqI) (auto simp: bit_simps dest: bit_imp_le_length)

lemma bytes_u32_join8: "bytes_u32 (join8 b0 b1 b2 b3) = [b0, b1, b2, b3]"
  unfolding bytes_u32_def join8_def list.inject
  by (intro conjI refl bit_word_eqI) (auto simp: bit_simps dest: bit_imp_le_length)

lemma split16_zero: "split16 0 = [0, 0]"
  by (simp add: split16_def)

lemma packus_zero: "packus_epi32 0 = 0" "packus_epi16 0 = 0"
  by (simp_all add: packus_epi32_def packus_epi16_def)

lemma upt_0_2: "[0..<2] = [0, Suc 0]"
  by (simp add: numeral_2_eq_2)

text \<open>The four-lane evaluator puts the twice-packed lanes into the four bytes of its result.\<close>

lemma Eval_SaturatingCastToUint8_Int32x4x1_join8:
  "Eval_SaturatingCastToUint8_Int32x4x1 [a, b, c, d] row col
     = join8 (packus_epi16 (packus_epi32 a)) (packus_epi16 (packus_epi32 b))
             (packus_epi16 (packus_epi32 c)) (packus_epi16 (packus_epi32 d))"
  by (simp add: Eval_SaturatingCastToUint8_Int32x4x1_def mm_packus_epi32_def mm_packus_epi16_def
      mm_cvtsi128_si32_def Dup_def lanes16_def split16_join16 split16_zero packus_zero)

lemma Eval_SaturatingCastToUint8_Int32x16x1_regs:
  "Eval_SaturatingCastToUint8_Int32x16x1
      [[a0, a1, a2, a3], [b0, b1, b2, b3], [c0, c1, c2, c3], [d0, d1, d2, d3]] row col
   = [Eval_SaturatingCastToUint8_Int32x4x1 [a0, a1, a2, a3] r c,
      Eval_SaturatingCastToUint8_Int32x4x1 [b0, b1, b2, b3] r c,
      Eval_SaturatingCastToUint8_Int32x4x1 [c0, c1, c2, c3] r c,
      Eval_SaturatingCastToUint8_Int32x4x1 [d0, d1, d2, d3] r c]"
  by (simp add: Eval_SaturatingCastToUint8_Int32x4x1_join8
      Eval_SaturatingCastToUint8_Int32x16x1_def mm_packus_epi32_def mm_packus_epi16_def upt_0_2
      lanes16_def split16_join16)

text \<open>
  Claim C2. For every fragment of sixteen int32 values (four registers of four lanes), the
  sixteen-lane SaturatingCastToUint8 evaluator yields the same sixteen bytes, in the same
  order, as the four-lane evaluator applied to the four registers in turn; as 32-bit lanes,
  its result register holds the four results of the four-lane evaluator.
\<close>

theorem Eval_SaturatingCastToUint8_Int32x16x1_as_four:
  assumes "length input = 4" and "\<forall>v \<in> set input. length v = 4"
  shows "lanes8 (Eval_SaturatingCastToUint8_Int32x16x1 input row col)
           = concat (map (\<lambda>v. bytes_u32 (Eval_SaturatingCastToUint8_Int32x4x1 v r c)) input)
       \<and> Eval_SaturatingCastToUint8_Int32x16x1 input row col
           = map (\<lambda>v. Eval_SaturatingCastToUint8_Int32x4x1 v r c) input"
proof -
  from assms(1) obtain va vb vc vd where input: "input = [va, vb, vc, vd]"
    by (auto simp: length_4_iff)
  with assms(2) have "length va = 4" "length vb = 4" "length vc = 4" "length vd = 4"
    by simp_all
  then obtain a0 a1 a2 a3 b0 b1 b2 b3 c0 c1 c2 c3 d0 d1 d2 d3
    where regs: "va = [a0, a1, a2, a3]" "vb = [b0, b1, b2, b3]"
      "vc = [c0, c1, c2, c3]" "vd = [d0, d1, d2, d3]"
    unfolding length_4_iff by blast
  have "Eval_SaturatingCastToUint8_Int32x16x1 input row col
           = map (\<lambda>v. Eval_SaturatingCastToUint8_Int32x4x1 v r c) input"
    unfolding input regs
    by (simp add: Eval_SaturatingCastToUint8_Int32x16x1_regs
        [of _ _ _ _ _ _ _ _ _ _ _ _ _ _ _ _ _ _ r c])
  then show ?thesis
    by (simp add: lanes8_def comp_def map_concat)
qed

theorem Eval_SaturatingCastToUint8_Int32x16x1_as_four_witness:
  "length [[300, 256, 255, - 1], [1, 2, 3, 4], [32767, 7, - 70000, 0], [100, 200, 300, 400 :: int32]] = 4
   \<and> list_all (\<lambda>v. length v = 4)
        [[300, 256, 255, - 1], [1, 2, 3, 4], [32767, 7, - 70000, 0], [100, 200, 300, 400 :: int32]]
   \<and> lanes8 (Eval_SaturatingCastToUint8_Int32x16x1
        [[300, 256, 255, - 1], [1, 2, 3, 4], [32767, 7, - 70000, 0], [100, 200, 300, 400]] 0 0)
      = [255, 255, 255, 0, 1, 2, 3, 4, 255, 7, 0, 0, 100, 200, 255, 255]"
proof -
  have len: "length [[300, 256, 255, - 1], [1, 2, 3, 4], [32767, 7, - 70000, 0],
      [100, 200, 300, 400 :: int32]] = 4"
    by simp
  have regs: "\<forall>v \<in> set [[300, 256, 255, - 1], [1, 2, 3, 4], [32767, 7, - 70000, 0],
      [100, 200, 300, 400 :: int32]]. length v = 4"
    by simp
  have "lanes8 (Eval_SaturatingCastToUint8_Int32x16x1
        [[300, 256, 255, - 1], [1, 2, 3, 4], [32767, 7, - 70000, 0], [100, 200, 300, 400]] 0 0)
      = [255, 255, 255, 0, 1, 2, 3, 4, 255, 7, 0, 0, 100, 200, 255, 255]"
    using Eval_SaturatingCastToUint8_Int32x16x1_as_four [OF len regs, THEN conjunct1, of 0 0 0 0]
    by (simp add: Eval_SaturatingCastToUint8_Int32x4x1_join8 bytes_u32_join8
        packus_epi16_def packus_epi32_def)
  then show ?thesis by simp
qed

text \<open>What one lane becomes. The first pack saturates to the unsigned range 0..65535, and
  the second pack reads its 16-bit input as signed, so every value from 32768 on has become
  negative by then and ends as 0.\<close>

lemma sint_ucast16:
  "sint (ucast (x :: int32) :: 16 word) = (uint x + 32768) mod 65536 - 32768"
  by (simp add: signed_ucast_eq signed_take_bit_eq_take_bit_shift take_bit_eq_mod)

lemma mod_65536_low:
  "0 \<le> k \<Longrightarrow> k < 32768 \<Longrightarrow> (k + 32768) mod 65536 - 32768 = (k :: int)"
  by simp

lemma mod_65536_high:
  "32768 \<le> k \<Longrightarrow> k \<le> 65535 \<Longrightarrow> (k + 32768) mod 65536 - 32768 = (k :: int) - 65536"
proof -
  assume k: "32768 \<le> k" "k \<le> 65535"
  have e: "k + 32768 = (k - 32768) + 65536"
    by linarith
  have "(k + 32768) mod 65536 = (k - 32768) mod 65536"
    unfolding e by (rule mod_add_self2)
  also have "\<dots> = k - 32768"
    using k by (simp add: mod_pos_pos_trivial)
  finally show ?thesis by simp
qed

lemma uint_eq_sint: "0 \<le> sint (x :: int32) \<Longrightarrow> uint x = sint x"
proof -
  assume "0 \<le> sint x"
  moreover have "sint x < 2 ^ 32"
    using sint_lt [of x] by simp
  ultimately show ?thesis
    by (simp add: uint_sint take_bit_int_eq_self)
qed

lemma ucast_ucast8: "(ucast (ucast (x :: int32) :: 16 word) :: 8 word) = ucast x"
  by (rule bit_word_eqI) (auto simp: bit_simps)

lemma sint_packus_epi32:
  "sint (packus_epi32 x) =
     (if sint x < 0 then 0 else if sint x < 32768 then sint x
      else if sint x \<le> 65535 then sint x - 65536 else - 1)"
proof -
  consider "sint x < 0" | "0 \<le> sint x" "sint x < 32768"
    | "32768 \<le> sint x" "sint x \<le> 65535" | "65535 < sint x"
    by linarith
  then show ?thesis
  proof cases
    case 1
    then show ?thesis by (simp add: packus_epi32_def)
  next
    case 2
    then have "uint x = sint x" by (simp add: uint_eq_sint)
    with 2 show ?thesis by (simp add: packus_epi32_def sint_ucast16 mod_65536_low)
  next
    case 3
    then have "uint x = sint x" by (simp add: uint_eq_sint)
    with 3 show ?thesis by (simp add: packus_epi32_def sint_ucast16 mod_65536_high)
  next
    case 4
    then show ?thesis by (simp add: packus_epi32_def)
  qed
qed

lemma packus_twice:
  "packus_epi16 (packus_epi32 x) =
     (if sint x \<le> 0 then 0 else if sint x \<le> 255 then ucast x
      else if sint x < 32768 then 255 else 0)"
proof -
  consider "sint x < 0" | "sint x = 0" | "0 < sint x" "sint x \<le> 255"
    | "255 < sint x" "sint x < 32768" | "32768 \<le> sint x"
    by linarith
  then show ?thesis
  proof cases
    case 1
    then show ?thesis by (simp add: packus_epi16_def packus_epi32_def)
  next
    case 2
    then have "x = 0" by (metis signed_0 signed_word_eqI)
    then show ?thesis by (simp add: packus_epi16_def packus_epi32_def)
  next
    case 3
    then have "packus_epi32 x = ucast x" by (simp add: packus_epi32_def)
    with 3 show ?thesis
      using sint_packus_epi32 [of x] by (simp add: packus_epi16_def ucast_ucast8)
  next
    case 4
    then show ?thesis by (simp add: packus_epi16_def sint_packus_epi32)
  next
    case 5
    then show ?thesis by (simp add: packus_epi16_def sint_packus_epi32)
  qed
qed

text \<open>
  Claim C4 says that SaturatingCastToUint8 maps every input \<open>\<ge> 255\<close> to 255, on both the
  four-lane and the sixteen-lane path. The two paths agree (see above) and inputs below 32768
  are cast as claimed, but both paths turn every input from 32768 on into 0: here 32768,
  65536, 40000 and the largest int32 all give the byte 0, next to 256 and 32767, which give
  255.
\<close>

theorem Eval_SaturatingCastToUint8_from_32768:
  "bytes_u32 (Eval_SaturatingCastToUint8_Int32x4x1 [32768, 256, 255, - 1] 0 0)
     = [0, 255, 255, 0]
   \<and> lanes8 (Eval_SaturatingCastToUint8_Int32x16x1
        [[32768, 256, 255, - 1], [65536, 40000, 2147483647, 32767], [0, 1, 2, 3],
         [254, 255, 256, 257]] 0 0)
     = [0, 255, 255, 0, 0, 0, 0, 255, 0, 1, 2, 3, 254, 255, 255, 255]"
  by (simp add: Eval_SaturatingCastToUint8_Int32x16x1_regs
        [of _ _ _ _ _ _ _ _ _ _ _ _ _ _ _ _ _ _ 0 0]
      lanes8_def Eval_SaturatingCastToUint8_Int32x4x1_join8 bytes_u32_join8
      packus_epi16_def packus_epi32_def)

subsection \<open>Bias addition\<close>

lemma Add_4: "Add [a0, a1, a2, a3] [b0, b1, b2, b3] = [a0 + b0, a1 + b1, a2 + b2, a3 + b3]"
  by (simp add: Add_def)

lemma take_4_drop:
  "n + 4 \<le> length v \<Longrightarrow> take 4 (drop n v) = [v ! n, v ! (n + 1), v ! (n + 2), v ! (n + 3)]"
  by (rule nth_equalityI) (auto simp: less_Suc_eq numeral_eq_Suc nth_Cons')

lemma mm_lddqu_si128_Some:
  "0 \<le> index \<Longrightarrow> index + 4 \<le> int (length v) \<Longrightarrow>
   mm_lddqu_si128 v index
     = Some [v ! nat index, v ! (nat index + 1), v ! (nat index + 2), v ! (nat index + 3)]"
  by (simp add: mm_lddqu_si128_def take_4_drop)

text \<open>
  Claim C7. For a fragment of four lanes, a row-shaped bias vector contributes the single
  value at index \<open>col\<close>, added to all four lanes; a column-shaped bias vector contributes the
  four consecutive values from index \<open>row\<close> on, added lane by lane.
\<close>

theorem Eval_BiasAddition_shapes:
  assumes "length input = 4"
  shows "(kShape s = Row \<and> 0 \<le> col \<and> col < int (length (bias_vector s)) \<longrightarrow>
           Eval_BiasAddition_Int32x4x1 s input row col
             = Some (map (\<lambda>x. x + bias_vector s ! nat col) input))
       \<and> (kShape s = Col \<and> 0 \<le> row \<and> row + 4 \<le> int (length (bias_vector s)) \<longrightarrow>
           Eval_BiasAddition_Int32x4x1 s input row col
             = Some [input ! 0 + bias_vector s ! nat row,
                     input ! 1 + bias_vector s ! (nat row + 1),
                     input ! 2 + bias_vector s ! (nat row + 2),
                     input ! 3 + bias_vector s ! (nat row + 3)])"
proof (intro conjI impI)
  assume "kShape s = Row \<and> 0 \<le> col \<and> col < int (length (bias_vector s))"
  then show "Eval_BiasAddition_Int32x4x1 s input row col
             = Some (map (\<lambda>x. x + bias_vector s ! nat col) input)"
    using assms by (simp add: Eval_BiasAddition_Int32x4x1_def vector_at_def Add_Dup_map)
next
  assume shape: "kShape s = Col \<and> 0 \<le> row \<and> row + 4 \<le> int (length (bias_vector s))"
  from assms obtain a b c d where "input = [a, b, c, d]"
    by (auto simp: length_4_iff)
  with shape show "Eval_BiasAddition_Int32x4x1 s input row col
             = Some [input ! 0 + bias_vector s ! nat row,
                     input ! 1 + bias_vector s ! (nat row + 1),
                     input ! 2 + bias_vector s ! (nat row + 2),
                     input ! 3 + bias_vector s ! (nat row + 3)]"
    by (simp add: Eval_BiasAddition_Int32x4x1_def mm_lddqu_si128_Some Add_4)
qed

theorem Eval_BiasAddition_shapes_witness:
  "length [100, 200, 300, 400 :: int32] = 4
   \<and> (2 :: int) < int (length [1, 2, 3, 4, 5, 6, 7, 8 :: int32])
   \<and> Eval_BiasAddition_Int32x4x1 \<lparr>kShape = Row, bias_vector = [1, 2, 3, 4, 5, 6, 7, 8]\<rparr>
        [100, 200, 300, 400] 4 2 = Some [103, 203, 303, 403]
   \<and> (4 :: int) + 4 \<le> int (length [1, 2, 3, 4, 5, 6, 7, 8 :: int32])
   \<and> Eval_BiasAddition_Int32x4x1 \<lparr>kShape = Col, bias_vector = [1, 2, 3, 4, 5, 6, 7, 8]\<rparr>
        [100, 200, 300, 400] 4 2 = Some [105, 206, 307, 408]"
proof -
  have len: "length [100, 200, 300, 400 :: int32] = 4"
    by simp
  note shapes = Eval_BiasAddition_shapes [OF len, of _ 2 4]
  have "Eval_BiasAddition_Int32x4x1 \<lparr>kShape = Row, bias_vector = [1, 2, 3, 4, 5, 6, 7, 8]\<rparr>
        [100, 200, 300, 400] 4 2 = Some [103, 203, 303, 403]"
    using shapes [of "\<lparr>kShape = Row, bias_vector = [1, 2, 3, 4, 5, 6, 7, 8]\<rparr>"] by simp
  moreover
  have "Eval_BiasAddition_Int32x4x1 \<lparr>kShape = Col, bias_vector = [1, 2, 3, 4, 5, 6, 7, 8]\<rparr>
        [100, 200, 300, 400] 4 2 = Some [105, 206, 307, 408]"
    using shapes [of "\<lparr>kShape = Col, bias_vector = [1, 2, 3, 4, 5, 6, 7, 8]\<rparr>"] by simp
  ultimately show ?thesis by simp
qed

text \<open>
  Claim C8, as stated: a column-shaped bias vector \<open>[5, 10, 15, 20]\<close> at \<open>row = 0\<close>,
  \<open>col = 0\<close> adds 5 to each of the four elements. The stage gathers a column-shaped vector
  from the row offset instead, so the four elements get 5, 10, 15 and 20.
\<close>

theorem Eval_BiasAddition_Col_counterexample:
  "Eval_BiasAddition_Int32x4x1 \<lparr>kShape = Col, bias_vector = [5, 10, 15, 20]\<rparr>
      [100, 200, 300, 400] 0 0 = Some [105, 210, 315, 420]
   \<and> Some [105, 210, 315, 420] \<noteq> Some (map (\<lambda>x. x + 5) [100, 200, 300, 400 :: int32])"
  by (simp add: Eval_BiasAddition_Int32x4x1_def mm_lddqu_si128_def Add_def)

text \<open>
  Claim C8, amended. At \<open>row = 0\<close>, \<open>col = 0\<close>, the column-shaped bias vector
  \<open>[5, 10, 15, 20]\<close> adds 5, 10, 15 and 20 to the elements 0, 1, 2 and 3 of a four-lane
  fragment; it is the row-shaped bias vector \<open>[5, 10, 15, 20]\<close> that adds 5, its value at
  index \<open>col = 0\<close>, to every element.
\<close>

theorem Eval_BiasAddition_scenario:
  assumes "length input = 4"
  shows "Eval_BiasAddition_Int32x4x1 \<lparr>kShape = Col, bias_vector = [5, 10, 15, 20]\<rparr> input 0 0
           = Some [input ! 0 + 5, input ! 1 + 10, input ! 2 + 15, input ! 3 + 20]
       \<and> Eval_BiasAddition_Int32x4x1 \<lparr>kShape = Row, bias_vector = [5, 10, 15, 20]\<rparr> input 0 0
           = Some (map (\<lambda>x. x + 5) input)"
proof -
  from assms obtain a b c d where "input = [a, b, c, d]"
    by (auto simp: length_4_iff)
  then show ?thesis
    by (simp add: Eval_BiasAddition_Int32x4x1_def mm_lddqu_si128_def vector_at_def Add_def
        Dup_def)
qed

theorem Eval_BiasAddition_scenario_witness:
  "length [1, 2, 3, 4 :: int32] = 4
   \<and> Eval_BiasAddition_Int32x4x1 \<lparr>kShape = Col, bias_vector = [5, 10, 15, 20]\<rparr>
        [1, 2, 3, 4] 0 0 = Some [6, 12, 18, 24]
   \<and> Eval_BiasAddition_Int32x4x1 \<lparr>kShape = Row, bias_vector = [5, 10, 15, 20]\<rparr>
        [1, 2, 3, 4] 0 0 = Some [6, 7, 8, 9]"
proof -
  have len: "length [1, 2, 3, 4 :: int32] = 4"
    by simp
  show ?thesis
    using Eval_BiasAddition_scenario [OF len] by simp
qed

subsection \<open>Per-channel rescale\<close>

text \<open>The two specialisations are one body read at two indices: whatever the loads and the
  variables are taken to be, the row-shaped evaluator at \<open>(row, col)\<close> is the column-shaped
  evaluator at \<open>(col, row)\<close>, and at \<open>row = col\<close> they are the same.\<close>

lemma Eval_ScalePC_same_body:
  "Eval_ScalePC_Row_Int32x4x1 load dup operand s input row col
     = Eval_ScalePC_Col_Int32x4x1 load dup operand s input col row"
  by (simp add: Eval_ScalePC_Row_Int32x4x1_def Eval_ScalePC_Col_Int32x4x1_def)

text \<open>Two ways of reading the variables, at offsets \<open>[10, 20, 30, 40]\<close>, multipliers
  \<open>[1, 2, 3, 4]\<close>, shift 0 and the lanes \<open>[1, 1, 1, 1]\<close>. If a variable holds the vector's
  element at the index, broadcast where it is used, both evaluators use one value for all
  lanes; if it holds the four elements from the index on, both use one value per lane.\<close>

lemma Eval_ScalePC_element_reading:
  "Eval_ScalePC_Col_Int32x4x1 vector_at Dup Dup
      \<lparr>pc_result_offset = [10, 20, 30, 40], pc_result_mult_int = [1, 2, 3, 4],
        pc_result_shift = 0\<rparr> [1, 1, 1, 1] 0 0 = Some [11, 11, 11, 11]"
  "Eval_ScalePC_Row_Int32x4x1 vector_at Dup Dup
      \<lparr>pc_result_offset = [10, 20, 30, 40], pc_result_mult_int = [1, 2, 3, 4],
        pc_result_shift = 0\<rparr> [1, 1, 1, 1] 0 0 = Some [11, 11, 11, 11]"
  by (simp_all add: Eval_ScalePC_Col_Int32x4x1_def Eval_ScalePC_Row_Int32x4x1_def
      vector_at_def Add_def Mul_def Dup_def ShiftRight_def kRoundingTerm_def)

lemma Eval_ScalePC_register_reading:
  "Eval_ScalePC_Col_Int32x4x1 mm_lddqu_si128 (\<lambda>x. x) (\<lambda>x. x)
      \<lparr>pc_result_offset = [10, 20, 30, 40], pc_result_mult_int = [1, 2, 3, 4],
        pc_result_shift = 0\<rparr> [1, 1, 1, 1] 0 0 = Some [11, 42, 93, 164]"
  "Eval_ScalePC_Row_Int32x4x1 mm_lddqu_si128 (\<lambda>x. x) (\<lambda>x. x)
      \<lparr>pc_result_offset = [10, 20, 30, 40], pc_result_mult_int = [1, 2, 3, 4],
        pc_result_shift = 0\<rparr> [1, 1, 1, 1] 0 0 = Some [11, 42, 93, 164]"
  by (simp_all add: Eval_ScalePC_Col_Int32x4x1_def Eval_ScalePC_Row_Int32x4x1_def
      mm_lddqu_si128_def Add_def Mul_def Dup_def ShiftRight_def kRoundingTerm_def)

text \<open>
  Claim C5 says that the row-indexed variant at \<open>row = r0\<close> uses the values at \<open>r0\<close>,
  \<open>r0 + 1\<close>, \<open>r0 + 2\<close>, \<open>r0 + 3\<close>, one per lane, and the column-indexed variant the single
  value at \<open>col\<close>, the same for every lane. With offsets \<open>[10, 20, 30, 40]\<close>, multipliers
  \<open>[1, 2, 3, 4]\<close> and shift 0, the lanes \<open>[1, 1, 1, 1]\<close> at \<open>row = 0\<close>, \<open>col = 0\<close> should then
  become \<open>[11, 42, 93, 164]\<close> in the row-indexed variant and \<open>[11, 11, 11, 11]\<close> in the
  column-indexed one. However the ill-typed loads and variables are read, the two evaluators
  do not both do so: they are one body, and return the same there.
\<close>

theorem Eval_ScalePC_not_both_as_claimed:
  "\<not> (Eval_ScalePC_Col_Int32x4x1 load dup operand
          \<lparr>pc_result_offset = [10, 20, 30, 40], pc_result_mult_int = [1, 2, 3, 4],
            pc_result_shift = 0\<rparr> [1, 1, 1, 1] 0 0 = Some [11, 42, 93, 164]
      \<and> Eval_ScalePC_Row_Int32x4x1 load dup operand
          \<lparr>pc_result_offset = [10, 20, 30, 40], pc_result_mult_int = [1, 2, 3, 4],
            pc_result_shift = 0\<rparr> [1, 1, 1, 1] 0 0 = Some [11, 11, 11, 11])"
  by (simp add: Eval_ScalePC_same_body)

subsection \<open>Decomposition of sixteen lanes\<close>

lemma scalar_reference_4:
  "scalar_reference f [a, b, c, d] row col
     = [f a row col, f b (row + 1) col, f c (row + 2) col, f d (row + 3) col]"
  by (simp add: scalar_reference_def enumerate_simps)

text \<open>The registers \<open>output\<close> starts with do not matter.\<close>

lemma Eval_Int32x16x1_loop_init:
  "length out = 4 \<Longrightarrow> length out' = 4 \<Longrightarrow>
   Eval_Int32x16x1_loop impl input row col 0 out
     = Eval_Int32x16x1_loop impl input row col 0 out'"
  by (auto simp: length_4_iff split: option.splits)

text \<open>For any four-lane implementation, the sixteen-lane result is the list, in the same
  order, of the four-lane results at rows \<open>row\<close>, \<open>row + 4\<close>, \<open>row + 8\<close>, \<open>row + 12\<close> of the
  same column, and undefined as soon as one of them is.\<close>

lemma Eval_Int32x16x1_those:
  "Eval_Int32x16x1 impl [v0, v1, v2, v3] row col
     = those [impl v0 row col, impl v1 (row + 4) col, impl v2 (row + 8) col,
              impl v3 (row + 12) col]"
  by (simp add: Eval_Int32x16x1_def split: option.splits)


text \<open>Where a four-lane implementation gives, on four lanes at \<open>(r, c)\<close>, what a scalar stage
  \<open>f\<close> gives element by element, the decomposition gives on sixteen lanes what \<open>f\<close> gives
  element by element. The clamp, the bias addition of either shape and the uniform rescale
  are such implementations.\<close>

lemma scalar_reference_16:
  assumes "length v0 = 4" "length v1 = 4" "length v2 = 4" "length v3 = 4"
  shows "scalar_reference f (concat [v0, v1, v2, v3]) row col
      = scalar_reference f v0 row col @ scalar_reference f v1 (row + 4) col
        @ scalar_reference f v2 (row + 8) col @ scalar_reference f v3 (row + 12) col"
proof -
  from assms obtain a0 a1 a2 a3 b0 b1 b2 b3 c0 c1 c2 c3 d0 d1 d2 d3
    where regs: "v0 = [a0, a1, a2, a3]" "v1 = [b0, b1, b2, b3]"
      "v2 = [c0, c1, c2, c3]" "v3 = [d0, d1, d2, d3]"
    unfolding length_4_iff by blast
  show ?thesis
    unfolding regs scalar_reference_4
    by (simp add: scalar_reference_def enumerate_simps add.commute)
qed

lemma Eval_Int32x16x1_scalar_reference:
  assumes "length v0 = 4" "length v1 = 4" "length v2 = 4" "length v3 = 4"
    and "\<And>v r. length v = 4 \<Longrightarrow> r \<in> {row, row + 4, row + 8, row + 12} \<Longrightarrow>
           impl v r col = Some (scalar_reference f v r col)"
  shows "\<exists>out. Eval_Int32x16x1 impl [v0, v1, v2, v3] row col = Some out
           \<and> concat out = scalar_reference f (concat [v0, v1, v2, v3]) row col"
proof -
  have "Eval_Int32x16x1 impl [v0, v1, v2, v3] row col
      = Some [scalar_reference f v0 row col, scalar_reference f v1 (row + 4) col,
              scalar_reference f v2 (row + 8) col, scalar_reference f v3 (row + 12) col]"
    using assms by (simp add: Eval_Int32x16x1_those)
  moreover have "concat [scalar_reference f v0 row col, scalar_reference f v1 (row + 4) col,
              scalar_reference f v2 (row + 8) col, scalar_reference f v3 (row + 12) col]
      = scalar_reference f (concat [v0, v1, v2, v3]) row col"
    unfolding scalar_reference_16 [OF assms(1-4)] by simp
  ultimately show ?thesis by blast
qed

lemma Eval_Clamp_scalar_reference:
  assumes "length v = 4"
  shows "Eval_Clamp_Int32x4x1 s v r c
      = scalar_reference (\<lambda>x r c. min_epi32 (max_epi32 x (clamp_min s)) (clamp_max s)) v r c"
proof -
  from assms obtain x0 x1 x2 x3 where "v = [x0, x1, x2, x3]"
    by (auto simp: length_4_iff)
  then show ?thesis
    by (simp add: Eval_Clamp_Int32x4x1_def mm_min_epi32_def mm_max_epi32_def Dup_def
        scalar_reference_4)
qed

lemma Eval_BiasAddition_scalar_reference:
  assumes "length v = 4"
  shows "kShape s = Row \<Longrightarrow> 0 \<le> c \<Longrightarrow> c < int (length (bias_vector s)) \<Longrightarrow>
           Eval_BiasAddition_Int32x4x1 s v r c
             = Some (scalar_reference (\<lambda>x r c. x + bias_vector s ! nat c) v r c)"
    and "kShape s = Col \<Longrightarrow> 0 \<le> r \<Longrightarrow> r + 4 \<le> int (length (bias_vector s)) \<Longrightarrow>
           Eval_BiasAddition_Int32x4x1 s v r c
             = Some (scalar_reference (\<lambda>x r c. x + bias_vector s ! nat r) v r c)"
proof -
  from assms obtain x0 x1 x2 x3 where v: "v = [x0, x1, x2, x3]"
    by (auto simp: length_4_iff)
  show "kShape s = Row \<Longrightarrow> 0 \<le> c \<Longrightarrow> c < int (length (bias_vector s)) \<Longrightarrow>
           Eval_BiasAddition_Int32x4x1 s v r c
             = Some (scalar_reference (\<lambda>x r c. x + bias_vector s ! nat c) v r c)"
    unfolding v
    by (simp add: Eval_BiasAddition_Int32x4x1_def vector_at_def Add_def Dup_def
        scalar_reference_4)
  show "kShape s = Col \<Longrightarrow> 0 \<le> r \<Longrightarrow> r + 4 \<le> int (length (bias_vector s)) \<Longrightarrow>
           Eval_BiasAddition_Int32x4x1 s v r c
             = Some (scalar_reference (\<lambda>x r c. x + bias_vector s ! nat r) v r c)"
    unfolding v
    by (simp add: Eval_BiasAddition_Int32x4x1_def mm_lddqu_si128_Some Add_4
        scalar_reference_4 nat_add_distrib)
qed

lemma Eval_Scale_scalar_reference:
  assumes "length v = 4" and "0 \<le> sint (result_shift s)" and "sint (result_shift s) \<le> 31"
    and "kRoundingTerm (result_shift s) = Some rounding"
  shows "Eval_Scale_Int32x4x1 s v r c
      = Some (scalar_reference
          (\<lambda>x r c. signed_drop_bit (nat (sint (result_shift s)))
                     ((x + result_offset s) * result_mult_int s + rounding)) v r c)"
proof -
  from assms(1) obtain x0 x1 x2 x3 where "v = [x0, x1, x2, x3]"
    by (auto simp: length_4_iff)
  then show ?thesis
    using Eval_Scale_in_range [OF assms, of r c] by (simp add: scalar_reference_4)
qed


subsection \<open>Storing sixteen int32 values\<close>

text \<open>The four iterations store the same register at the same address: the loop is one
  store of four elements.\<close>

lemma StoreFinalOutput_Int32x16x1_one_store:
  "StoreFinalOutput_Int32x16x1 v data mem row col
     = StoreFinalOutput_Int32x4x1 (v ! 0) data mem row col"
  by (simp add: StoreFinalOutput_Int32x16x1_def StoreFinalOutput_Int32x4x1_def
      mm_storeu_si128_def)

text \<open>
  Claim C9 says that the store of a sixteen-lane int32 fragment writes its four registers to
  four distinct, successive addresses, so that the destination holds all sixteen values
  afterwards. Storing the values 1 to 16 at \<open>(0, 0)\<close> into a column-major destination whose
  elements all hold 77 leaves 1, 2, 3, 4 in the first four elements and 77 in the next
  twelve.
\<close>

theorem StoreFinalOutput_Int32x16x1_writes_four:
  "map (StoreFinalOutput_Int32x16x1
          [[1, 2, 3, 4], [5, 6, 7, 8], [9, 10, 11, 12], [13, 14, 15, 16]]
          (\<lambda>row col. row + 100 * col) (\<lambda>_. 77) 0 0)
       [0, 1, 2, 3, 4, 5, 6, 7, 8, 9, 10, 11, 12, 13, 14, 15]
   = [1, 2, 3, 4, 77, 77, 77, 77, 77, 77, 77, 77, 77, 77, 77, 77]"
  by (simp add: StoreFinalOutput_Int32x16x1_def mm_storeu_si128_def)

subsection \<open>Clamp\<close>

lemma length_Eval_Clamp:
  "length input = 4 \<Longrightarrow> length (Eval_Clamp_Int32x4x1 s input row col) = 4"
  by (simp add: Eval_Clamp_Int32x4x1_def mm_min_epi32_def mm_max_epi32_def length_Dup)

lemma nth_Eval_Clamp:
  assumes "length input = 4" and "i < 4"
  shows "Eval_Clamp_Int32x4x1 s input row col ! i =
         min_epi32 (max_epi32 (input ! i) (clamp_min s)) (clamp_max s)"
  using assms
  by (simp add: Eval_Clamp_Int32x4x1_def mm_min_epi32_def mm_max_epi32_def length_Dup nth_Dup)

lemma min_max_crossed:
  "sint hi < sint lo \<Longrightarrow> min_epi32 (max_epi32 x lo) hi = hi"
  by (auto simp: min_epi32_def max_epi32_def)

text \<open>
  Claim C10. For a fragment of four int32 lanes and a Clamp stage with any bounds \<open>min\<close> and
  \<open>max\<close>, every output lane is the signed minimum of \<open>max\<close> and the signed maximum of the
  input lane and \<open>min\<close>: the lower bound is applied first, then the upper. When the bounds are
  crossed (\<open>max < min\<close>), every output lane is \<open>max\<close>, whatever the input.
\<close>

theorem Eval_Clamp_lower_then_upper:
  assumes "length input = 4" and "i < 4"
  shows "Eval_Clamp_Int32x4x1 s input row col ! i =
           min_epi32 (max_epi32 (input ! i) (clamp_min s)) (clamp_max s)
         \<and> (sint (clamp_max s) < sint (clamp_min s) \<longrightarrow>
              Eval_Clamp_Int32x4x1 s input row col ! i = clamp_max s)"
  using assms by (simp add: nth_Eval_Clamp min_max_crossed)

theorem Eval_Clamp_lower_then_upper_witness:
  "length [-5, 15, 25, 7 :: int32] = 4 \<and> (2::nat) < 4
   \<and> sint (10 :: int32) < sint (20 :: int32)
   \<and> Eval_Clamp_Int32x4x1 \<lparr>clamp_min = 20, clamp_max = 10\<rparr> [-5, 15, 25, 7] 0 0 ! 2 = 10
   \<and> Eval_Clamp_Int32x4x1 \<lparr>clamp_min = 10, clamp_max = 20\<rparr> [-5, 15, 25, 7] 0 0
       = [10, 15, 20, 10]"
proof -
  have len: "length [-5, 15, 25, 7 :: int32] = 4" and idx: "(2::nat) < 4"
    by simp_all
  have crossed: "sint (10 :: int32) < sint (20 :: int32)"
    by simp
  have "sint (clamp_max \<lparr>clamp_min = 20 :: int32, clamp_max = 10 :: int32\<rparr>)
        < sint (clamp_min \<lparr>clamp_min = 20 :: int32, clamp_max = 10 :: int32\<rparr>)"
    by simp
  from Eval_Clamp_lower_then_upper [OF len idx, THEN conjunct2, THEN mp, OF this]
  have "Eval_Clamp_Int32x4x1 \<lparr>clamp_min = 20, clamp_max = 10\<rparr> [-5, 15, 25, 7] 0 0 ! 2 = 10"
    by simp
  moreover have "Eval_Clamp_Int32x4x1 \<lparr>clamp_min = 10, clamp_max = 20\<rparr> [-5, 15, 25, 7] 0 0
       = [10, 15, 20, 10]"
    by (simp add: Eval_Clamp_Int32x4x1_def mm_min_epi32_def mm_max_epi32_def Dup_def
        min_epi32_def max_epi32_def)
  ultimately show ?thesis using len idx crossed by blast
qed

end
